theory Spec2Isabelle
  imports Main
begin

section \<open>Vote bookkeeping of \<open>handleVote\<close> (src/app.jsx, lines 266-338)\<close>

text \<open>
  A votable document (a post, or a comment of a post) as \<open>handlePostSubmit\<close> and
  \<open>handleCommentSubmit\<close> create it: the arrays \<open>likers\<close> and \<open>dislikers\<close> of user
  ids and the numbers \<open>likes\<close> and \<open>dislikes\<close>, both created as \<open>0\<close>. \<open>handleVote\<close>
  reads the arrays as \<open>data[likersKey] || []\<close>, so an array may be absent (\<open>None\<close>).
  The counters are read as they are and only ever changed by \<open>++\<close> and \<open>--\<close>. They
  are JavaScript Numbers; the model takes them as integers, which may become
  negative. \<open>++\<close> and \<open>--\<close> are exact on the safe integers (\<open>Number.isSafeInteger\<close>,
  at most \<open>2^53 - 1\<close> in absolute value) and round beyond them, so a statement about
  the value of a counter after a vote is made for safe counters only. A counter
  that is absent or not a whole number is not represented.
\<close>

record vdoc =
  likers :: "string list option"
  dislikers :: "string list option"
  likes :: int
  dislikes :: int

text \<open>\<open>Number.isSafeInteger\<close> on a whole number.\<close>

definition safeInteger :: "int \<Rightarrow> bool" where
  "safeInteger n \<longleftrightarrow> - (2 ^ 53 - 1) \<le> n \<and> n \<le> 2 ^ 53 - 1"

text \<open>\<open>data[likersKey] || []\<close> and \<open>data[dislikersKey] || []\<close>.\<close>

definition likersOf :: "vdoc \<Rightarrow> string list" where
  "likersOf data = (case likers data of None \<Rightarrow> [] | Some xs \<Rightarrow> xs)"

definition dislikersOf :: "vdoc \<Rightarrow> string list" where
  "dislikersOf data = (case dislikers data of None \<Rightarrow> [] | Some xs \<Rightarrow> xs)"

text \<open>
  The two payloads \<open>handleVote\<close> passes to \<open>updateDoc\<close>:
  \<open>{likers: updatedLikers, likes: newLikes}\<close> and
  \<open>{dislikers: updatedDislikers, dislikes: newDislikes}\<close>. \<open>updateDoc\<close> changes the
  named fields only.
\<close>

datatype fieldUpdate =
  LikersUpdate "string list" int
  | DislikersUpdate "string list" int

fun applyUpdate :: "fieldUpdate \<Rightarrow> vdoc \<Rightarrow> vdoc" where
  "applyUpdate (LikersUpdate xs n) d = d\<lparr>likers := Some xs, likes := n\<rparr>"
| "applyUpdate (DislikersUpdate xs n) d = d\<lparr>dislikers := Some xs, dislikes := n\<rparr>"

text \<open>
  The body of \<open>handleVote\<close> after the snapshot \<open>data\<close> has been read (lines 288-337):
  the payloads of its \<open>updateDoc\<close> calls, in the order of the calls. Every payload is
  computed from \<open>data\<close>; nothing is read again between two calls. Any \<open>voteType\<close> other
  than \<open>'like'\<close> takes the \<open>else\<close> branch.
\<close>

definition voteWrites :: "vdoc \<Rightarrow> string \<Rightarrow> string \<Rightarrow> fieldUpdate list" where
  "voteWrites data userId voteType =
     (let likers = likersOf data;
          dislikers = dislikersOf data;
          newLikes = likes data;
          newDislikes = dislikes data;
          liked = (userId \<in> set likers);
          disliked = (userId \<in> set dislikers)
      in if voteType = ''like'' then
           (if liked then
              [LikersUpdate (filter (\<lambda>i. i \<noteq> userId) likers) (newLikes - 1)]
            else
              LikersUpdate (likers @ [userId]) (newLikes + 1) #
              (if disliked then
                 [DislikersUpdate (filter (\<lambda>i. i \<noteq> userId) dislikers) (newDislikes - 1)]
               else []))
         else
           (if disliked then
              [DislikersUpdate (filter (\<lambda>i. i \<noteq> userId) dislikers) (newDislikes - 1)]
            else
              DislikersUpdate (dislikers @ [userId]) (newDislikes + 1) #
              (if liked then
                 [LikersUpdate (filter (\<lambda>i. i \<noteq> userId) likers) (newLikes - 1)]
               else [])))"

text \<open>The document after a sequence of partial updates, and after each of them.\<close>

fun applyUpdates :: "fieldUpdate list \<Rightarrow> vdoc \<Rightarrow> vdoc" where
  "applyUpdates [] d = d"
| "applyUpdates (w # ws) d = applyUpdates ws (applyUpdate w d)"

fun persistedStates :: "fieldUpdate list \<Rightarrow> vdoc \<Rightarrow> vdoc list" where
  "persistedStates [] d = []"
| "persistedStates (w # ws) d = applyUpdate w d # persistedStates ws (applyUpdate w d)"

text \<open>
  \<open>applyVote\<close>: the item that results when \<open>handleVote\<close> reads the item and writes all
  its updates back to the same item (the case \<open>target === 'post'\<close>).
\<close>

definition applyVote :: "vdoc \<Rightarrow> string \<Rightarrow> string \<Rightarrow> vdoc" where
  "applyVote item userId voteType = applyUpdates (voteWrites item userId voteType) item"

text \<open>
  The state invariant of a votable item: each counter is the number of distinct
  users in its array, and no user is in both arrays.
\<close>

definition voteInvariant :: "vdoc \<Rightarrow> bool" where
  "voteInvariant d \<longleftrightarrow>
     likes d = int (card (set (likersOf d))) \<and>
     dislikes d = int (card (set (dislikersOf d))) \<and>
     set (likersOf d) \<inter> set (dislikersOf d) = {}"

section \<open>The document store and \<open>handleVote\<close>\<close>

text \<open>
  The documents \<open>handleVote\<close> touches live in two kinds of collection: the posts
  collection, keyed by the post's id, and the comments subcollection of a post, keyed
  by the post's id and the comment's id. A reference \<open>doc(db, path, id)\<close> names a
  document of one of them; the store maps references to documents.
\<close>

datatype docRef = PostRef string | CommentRef string string

type_synonym store = "docRef \<rightharpoonup> vdoc"

text \<open>
  \<open>updateDoc(ref, fields)\<close> of the document store: the named fields of the referenced
  document are replaced; the call fails (\<open>None\<close>) when the document does not exist.
\<close>

definition updateDoc :: "docRef \<Rightarrow> fieldUpdate \<Rightarrow> store \<Rightarrow> store option" where
  "updateDoc ref w s =
     (case s ref of
        None \<Rightarrow> None
      | Some d \<Rightarrow> Some (s(ref \<mapsto> applyUpdate w d)))"

text \<open>
  \<open>handleVote\<close> is an async function without a \<open>try\<close>: it is fulfilled when it runs to
  its end or returns early, and rejected at the first awaited call that fails; what
  was written before stays written.
\<close>

datatype outcome = Fulfilled | Rejected

fun runUpdates :: "docRef \<Rightarrow> fieldUpdate list \<Rightarrow> store \<Rightarrow> outcome \<times> store" where
  "runUpdates r [] s = (Fulfilled, s)"
| "runUpdates r (w # ws) s =
     (case updateDoc r w s of
        None \<Rightarrow> (Rejected, s)
      | Some s' \<Rightarrow> runUpdates r ws s')"

text \<open>
  The part of the component's state \<open>handleVote\<close> uses: the signed-in user (its
  \<open>uid\<close>), whether \<open>db\<close> was initialised, and the message box of \<open>showModal\<close>.
\<close>

record client =
  user :: "string option"
  db :: bool
  modalMessage :: string
  isModalOpen :: bool

definition showModal :: "string \<Rightarrow> client \<Rightarrow> client" where
  "showModal message c = c\<lparr>modalMessage := message, isModalOpen := True\<rparr>"

text \<open>
  \<open>handleVote(target, targetId, voteType, postId = null)\<close>. The reference that is
  written depends on \<open>target\<close>; the snapshot \<open>data\<close> is always read from the posts
  collection, by \<open>where('__name__', '==', targetId)\<close>, whatever \<open>target\<close> is. An
  absent \<open>postId\<close> is interpolated into the path as \<open>null\<close>.
\<close>

definition handleVote ::
  "client \<Rightarrow> store \<Rightarrow> string \<Rightarrow> string \<Rightarrow> string \<Rightarrow> string option \<Rightarrow> outcome \<times> client \<times> store" where
  "handleVote c s target targetId voteType postId =
     (case user c of
        None \<Rightarrow> (Fulfilled, showModal ''You must be signed in to like or dislike.'' c, s)
      | Some userId \<Rightarrow>
          if \<not> db c then
            (Fulfilled, showModal ''You must be signed in to like or dislike.'' c, s)
          else
            let ref = (if target = ''post'' then PostRef targetId
                       else CommentRef (case postId of None \<Rightarrow> ''null'' | Some p \<Rightarrow> p) targetId)
            in case s (PostRef targetId) of
                 None \<Rightarrow> (Fulfilled, showModal ''Error: Document not found.'' c, s)
               | Some data \<Rightarrow>
                   (case runUpdates ref (voteWrites data userId voteType) s of
                      (out, s') \<Rightarrow> (out, c, s')))"

text \<open>
  Two handlers racing on one post: both have read the same snapshot \<open>data\<close> before
  either writes; then the first handler's updates are written, then the second's.
\<close>

definition staleVotes :: "store \<Rightarrow> string \<Rightarrow> string \<Rightarrow> string \<Rightarrow> string \<Rightarrow> store" where
  "staleVotes s targetId userId1 userId2 voteType =
     (case s (PostRef targetId) of
        None \<Rightarrow> s
      | Some data \<Rightarrow>
          (let writes1 = voteWrites data userId1 voteType;
               writes2 = voteWrites data userId2 voteType
           in snd (runUpdates (PostRef targetId) writes2
                (snd (runUpdates (PostRef targetId) writes1 s)))))"

text \<open>
  A vote switches sides when the user is in the array opposite to the vote and not
  in the array of the vote.
\<close>

definition switchesVote :: "vdoc \<Rightarrow> string \<Rightarrow> string \<Rightarrow> bool" where
  "switchesVote data userId voteType =
     (if voteType = ''like''
      then userId \<notin> set (likersOf data) \<and> userId \<in> set (dislikersOf data)
      else userId \<notin> set (dislikersOf data) \<and> userId \<in> set (likersOf data))"

section \<open>Comment tree reconstruction (src/app.jsx, lines 185-193)\<close>

text \<open>
  A comment as the snapshot callback sees it: \<open>{id: commentDoc.id, ...commentDoc.data()}\<close>.
  \<open>parentCommentId\<close> is \<open>null\<close> for a top-level comment and the parent's id for a
  reply (\<open>handleCommentSubmit\<close>). The root of a tree is the comment with its \<open>replies\<close>.
\<close>

record commentRec =
  comment_id :: string
  parentCommentId :: "string option"
  content :: string

record commentNode =
  comment :: commentRec
  replies :: "commentRec list"

text \<open>\<open>!c.parentCommentId\<close>: true for \<open>null\<close>, and for the empty string as well.\<close>

definition topLevel :: "commentRec \<Rightarrow> bool" where
  "topLevel c = (case parentCommentId c of None \<Rightarrow> True | Some p \<Rightarrow> p = [])"

text \<open>
  \<open>sortedComments\<close> after the \<open>forEach\<close>: the top-level comments, each with the
  comments of \<open>commentsData\<close> whose \<open>parentCommentId\<close> is its id.
\<close>

definition build :: "commentRec list \<Rightarrow> commentNode list" where
  "build commentsData =
     map (\<lambda>comment.
            \<lparr>comment = comment,
             replies = filter (\<lambda>c. parentCommentId c = Some (comment_id comment)) commentsData\<rparr>)
         (filter topLevel commentsData)"

text \<open>The partition of the records in the words of the specification.\<close>

definition roots :: "commentRec list \<Rightarrow> commentRec list" where
  "roots records = filter topLevel records"

definition children :: "commentRec list \<Rightarrow> commentRec list" where
  "children records = filter (\<lambda>c. \<not> topLevel c) records"

section \<open>Example data\<close>

definition item_u1_liked :: vdoc where
  "item_u1_liked = \<lparr>likers = Some [''u1''], dislikers = Some [''u2''], likes = 1, dislikes = 1\<rparr>"

definition item_u1_disliked :: vdoc where
  "item_u1_disliked = \<lparr>likers = Some [], dislikers = Some [''u1''], likes = 0, dislikes = 1\<rparr>"

definition item_fresh :: vdoc where
  "item_fresh = \<lparr>likers = Some [], dislikers = Some [], likes = 0, dislikes = 0\<rparr>"

definition client_u1 :: client where
  "client_u1 = \<lparr>user = Some ''u1'', db = True, modalMessage = [], isModalOpen = False\<rparr>"

definition client_u2 :: client where
  "client_u2 = \<lparr>user = Some ''u2'', db = True, modalMessage = [], isModalOpen = False\<rparr>"

definition client_u3 :: client where
  "client_u3 = \<lparr>user = Some ''u3'', db = True, modalMessage = [], isModalOpen = False\<rparr>"

definition store_one_post :: store where
  "store_one_post = [PostRef ''p1'' \<mapsto> item_fresh]"

definition store_comment_only :: store where
  "store_comment_only =
     [PostRef ''p1'' \<mapsto> item_u1_liked, CommentRef ''p1'' ''c1'' \<mapsto> item_fresh]"

definition store_shared_id :: store where
  "store_shared_id =
     [PostRef ''x1'' \<mapsto> item_u1_liked, CommentRef ''p1'' ''x1'' \<mapsto> item_u1_disliked]"

definition rec1 :: commentRec where
  "rec1 = \<lparr>comment_id = ''1'', parentCommentId = None, content = ''a''\<rparr>"

definition rec2 :: commentRec where
  "rec2 = \<lparr>comment_id = ''2'', parentCommentId = Some ''1'', content = ''b''\<rparr>"

definition rec3 :: commentRec where
  "rec3 = \<lparr>comment_id = ''3'', parentCommentId = Some ''1'', content = ''c''\<rparr>"

definition rec4 :: commentRec where
  "rec4 = \<lparr>comment_id = ''4'', parentCommentId = Some ''99'', content = ''d''\<rparr>"

definition records4 :: "commentRec list" where
  "records4 = [rec1, rec2, rec3, rec4]"

section \<open>Auxiliary facts\<close>

lemma likersOf_applyUpdate [simp]:
  "likersOf (applyUpdate (LikersUpdate xs n) d) = xs"
  "likersOf (applyUpdate (DislikersUpdate xs n) d) = likersOf d"
  "dislikersOf (applyUpdate (DislikersUpdate xs n) d) = xs"
  "dislikersOf (applyUpdate (LikersUpdate xs n) d) = dislikersOf d"
  by (simp_all add: likersOf_def dislikersOf_def)

lemma counts_applyUpdate [simp]:
  "likes (applyUpdate (LikersUpdate xs n) d) = n"
  "likes (applyUpdate (DislikersUpdate xs n) d) = likes d"
  "dislikes (applyUpdate (DislikersUpdate xs n) d) = n"
  "dislikes (applyUpdate (LikersUpdate xs n) d) = dislikes d"
  by simp_all

lemma card_filter_member:
  assumes "u \<in> set xs"
  shows "int (card (set (filter (\<lambda>i. i \<noteq> u) xs))) = int (card (set xs)) - 1"
proof -
  have "set (filter (\<lambda>i. i \<noteq> u) xs) = set xs - {u}"
    by auto
  moreover have "Suc (card (set xs - {u})) = card (set xs)"
    using assms by (intro card_Suc_Diff1) simp_all
  ultimately show ?thesis
    by (simp del: set_filter)
qed

lemma filter_absent:
  assumes "u \<notin> set xs"
  shows "filter (\<lambda>i. i \<noteq> u) xs = xs"
  using assms by (induction xs) auto

text \<open>The four fields of the voted item, branch by branch.\<close>

lemma applyVote_fields:
  "likersOf (applyVote d u t) =
     (if t = ''like'' then
        (if u \<in> set (likersOf d) then filter (\<lambda>i. i \<noteq> u) (likersOf d) else likersOf d @ [u])
      else if u \<in> set (dislikersOf d) then likersOf d
      else if u \<in> set (likersOf d) then filter (\<lambda>i. i \<noteq> u) (likersOf d) else likersOf d)"
  "dislikersOf (applyVote d u t) =
     (if t = ''like'' then
        (if u \<in> set (likersOf d) then dislikersOf d
         else if u \<in> set (dislikersOf d) then filter (\<lambda>i. i \<noteq> u) (dislikersOf d)
         else dislikersOf d)
      else if u \<in> set (dislikersOf d) then filter (\<lambda>i. i \<noteq> u) (dislikersOf d)
      else dislikersOf d @ [u])"
  "likes (applyVote d u t) =
     (if t = ''like'' then
        (if u \<in> set (likersOf d) then likes d - 1 else likes d + 1)
      else if u \<in> set (dislikersOf d) then likes d
      else if u \<in> set (likersOf d) then likes d - 1 else likes d)"
  "dislikes (applyVote d u t) =
     (if t = ''like'' then
        (if u \<in> set (likersOf d) then dislikes d
         else if u \<in> set (dislikersOf d) then dislikes d - 1
         else dislikes d)
      else if u \<in> set (dislikersOf d) then dislikes d - 1
      else dislikes d + 1)"
  by (simp_all add: applyVote_def voteWrites_def Let_def del: applyUpdate.simps)

lemma applyVote_like_likers:
  "likers (applyVote d u ''like'') = Some (likersOf (applyVote d u ''like''))"
  by (simp add: applyVote_def voteWrites_def Let_def likersOf_def)

lemma applyVote_likes_card:
  assumes "likes d = int (card (set (likersOf d)))"
  shows "likes (applyVote d u t) = int (card (set (likersOf (applyVote d u t))))"
  using assms by (simp add: applyVote_fields card_filter_member del: set_filter)

lemma applyVote_dislikes_card:
  assumes "dislikes d = int (card (set (dislikersOf d)))"
  shows "dislikes (applyVote d u t) = int (card (set (dislikersOf (applyVote d u t))))"
  using assms by (simp add: applyVote_fields card_filter_member del: set_filter)

lemma applyVote_disjoint:
  assumes "set (likersOf d) \<inter> set (dislikersOf d) = {}"
  shows "set (likersOf (applyVote d u t)) \<inter> set (dislikersOf (applyVote d u t)) = {}"
  using assms by (auto simp: applyVote_fields)

text \<open>Updates of an existing document all succeed; the first update of a missing one fails.\<close>

lemma runUpdates_existing:
  "s r = Some d \<Longrightarrow> runUpdates r ws s = (Fulfilled, s(r \<mapsto> applyUpdates ws d))"
proof (induction ws arbitrary: s d)
  case Nil
  then show ?case by (simp add: map_upd_triv)
next
  case (Cons w ws)
  have "runUpdates r ws (s(r \<mapsto> applyUpdate w d)) =
          (Fulfilled, (s(r \<mapsto> applyUpdate w d))(r \<mapsto> applyUpdates ws (applyUpdate w d)))"
    by (rule Cons.IH) simp
  with Cons.prems show ?case
    by (simp add: updateDoc_def fun_upd_def cong: if_cong)
qed

lemma voteWrites_nonempty: "voteWrites d u t \<noteq> []"
  by (simp add: voteWrites_def Let_def)

lemma runUpdates_missing:
  "s r = None \<Longrightarrow> ws \<noteq> [] \<Longrightarrow> runUpdates r ws s = (Rejected, s)"
  by (cases ws) (simp_all add: updateDoc_def)

lemma handleVote_post:
  assumes "user c = Some u" and "db c" and "s (PostRef i) = Some d"
  shows "handleVote c s ''post'' i t pid = (Fulfilled, c, s(PostRef i \<mapsto> applyVote d u t))"
  using assms by (simp add: handleVote_def runUpdates_existing applyVote_def)

text \<open>Evaluation of the examples.\<close>

lemma example_fields [simp]:
  "likersOf item_u1_liked = [''u1'']" "dislikersOf item_u1_liked = [''u2'']"
  "likes item_u1_liked = 1" "dislikes item_u1_liked = 1"
  "likersOf item_u1_disliked = []" "dislikersOf item_u1_disliked = [''u1'']"
  "likes item_u1_disliked = 0" "dislikes item_u1_disliked = 1"
  "likersOf item_fresh = []" "dislikersOf item_fresh = []"
  "likes item_fresh = 0" "dislikes item_fresh = 0"
  by (simp_all add: item_u1_liked_def item_u1_disliked_def item_fresh_def
      likersOf_def dislikersOf_def)

lemma voteWrites_not_like:
  "voteType \<noteq> ''like'' \<Longrightarrow> voteWrites d u voteType = voteWrites d u ''dislike''"
  by (simp add: voteWrites_def)

lemma last_persistedStates:
  "ws \<noteq> [] \<Longrightarrow> last (persistedStates ws d) = applyUpdates ws d"
proof (induction ws arbitrary: d)
  case Nil
  then show ?case by simp
next
  case (Cons w ws)
  then show ?case by (cases ws) simp_all
qed

lemma length_persistedStates: "length (persistedStates ws d) = length ws"
  by (induction ws arbitrary: d) simp_all

text \<open>The roots of the forest and the replies of a root.\<close>

lemma build_roots: "map comment (build rs) = filter topLevel rs"
  by (simp add: build_def comp_def)

lemma build_node:
  assumes "n \<in> set (build rs)"
  shows "topLevel (comment n)" and "comment n \<in> set rs"
    and "replies n = filter (\<lambda>c. parentCommentId c = Some (comment_id (comment n))) rs"
  using assms by (auto simp: build_def)

lemma example_records [simp]:
  "topLevel rec1" "\<not> topLevel rec2" "\<not> topLevel rec3" "\<not> topLevel rec4"
  "comment_id rec1 = ''1''" "comment_id rec2 = ''2''" "comment_id rec3 = ''3''"
  "comment_id rec4 = ''4''"
  "parentCommentId rec1 = None" "parentCommentId rec2 = Some ''1''"
  "parentCommentId rec3 = Some ''1''" "parentCommentId rec4 = Some ''99''"
  by (simp_all add: topLevel_def rec1_def rec2_def rec3_def rec4_def)

lemma build_records4: "build records4 = [\<lparr>comment = rec1, replies = [rec2, rec3]\<rparr>]"
  by (simp add: build_def records4_def)

section \<open>The vote ledger\<close>

text \<open>
  Claim C1. Whenever an item satisfies the state invariant (each counter equals
  the cardinality of its voter set, and the two voter sets are disjoint), the item
  returned by \<open>applyVote\<close> satisfies it again, for every user and every vote type;
  in particular the voting user is in at most one of the two sets afterwards.
\<close>

theorem applyVote_preserves_invariant:
  assumes "voteInvariant item"
  shows "voteInvariant (applyVote item userId voteType) \<and>
         \<not> (userId \<in> set (likersOf (applyVote item userId voteType)) \<and>
            userId \<in> set (dislikersOf (applyVote item userId voteType)))"
proof -
  have inv: "voteInvariant (applyVote item userId voteType)"
    using assms applyVote_likes_card applyVote_dislikes_card applyVote_disjoint
    unfolding voteInvariant_def by blast
  then show ?thesis
    unfolding voteInvariant_def by blast
qed

theorem applyVote_preserves_invariant_witness:
  "voteInvariant item_u1_liked \<and>
   voteInvariant (applyVote item_u1_liked ''u2'' ''like'') \<and>
   applyVote item_u1_liked ''u2'' ''like'' =
     \<lparr>likers = Some [''u1'', ''u2''], dislikers = Some [], likes = 2, dislikes = 0\<rparr>"
proof -
  have h: "voteInvariant item_u1_liked"
    by (simp add: voteInvariant_def)
  have r: "applyVote item_u1_liked ''u2'' ''like'' =
     \<lparr>likers = Some [''u1'', ''u2''], dislikers = Some [], likes = 2, dislikes = 0\<rparr>"
    by (simp add: applyVote_def voteWrites_def item_u1_liked_def likersOf_def dislikersOf_def)
  from applyVote_preserves_invariant [OF h, of "''u2''" "''like''"] h r
  show ?thesis by simp
qed

text \<open>
  Claim C3 (switching law). When user \<open>u\<close> is among the likers of an item and not
  among its dislikers, a \<open>'dislike'\<close> vote of \<open>u\<close> yields an item in which \<open>u\<close> is
  among the dislikers only, \<open>likes\<close> is one less and \<open>dislikes\<close> is one more. The
  counters are taken to be safe integers, which they are in every item whose
  counters are the sizes of its arrays.
\<close>

theorem applyVote_switch_up_to_down:
  assumes "u \<in> set (likersOf item)" and "u \<notin> set (dislikersOf item)"
    and "safeInteger (likes item)" and "safeInteger (dislikes item)"
  shows "u \<in> set (dislikersOf (applyVote item u ''dislike'')) \<and>
         u \<notin> set (likersOf (applyVote item u ''dislike'')) \<and>
         likes (applyVote item u ''dislike'') = likes item - 1 \<and>
         dislikes (applyVote item u ''dislike'') = dislikes item + 1"
  using assms(1,2) by (simp add: applyVote_fields)

theorem applyVote_switch_up_to_down_witness:
  "''u1'' \<in> set (likersOf item_u1_liked) \<and> ''u1'' \<notin> set (dislikersOf item_u1_liked) \<and>
   safeInteger (likes item_u1_liked) \<and> safeInteger (dislikes item_u1_liked) \<and>
   applyVote item_u1_liked ''u1'' ''dislike'' =
     \<lparr>likers = Some [], dislikers = Some [''u2'', ''u1''], likes = 0, dislikes = 2\<rparr>"
proof -
  have a: "''u1'' \<in> set (likersOf item_u1_liked)"
    by simp
  have b: "''u1'' \<notin> set (dislikersOf item_u1_liked)"
    by simp
  have c: "safeInteger (likes item_u1_liked)" "safeInteger (dislikes item_u1_liked)"
    by (simp_all add: safeInteger_def)
  have r: "applyVote item_u1_liked ''u1'' ''dislike'' =
     \<lparr>likers = Some [], dislikers = Some [''u2'', ''u1''], likes = 0, dislikes = 2\<rparr>"
    by (simp add: applyVote_def voteWrites_def item_u1_liked_def likersOf_def dislikersOf_def)
  from applyVote_switch_up_to_down [OF a b c] a b c r show ?thesis by simp
qed

text \<open>
  Claim C4 (toggle). As stated, for every item and user, two \<open>'like'\<close> votes in a row
  give the item back. This fails when the user had disliked the item: the first
  vote switches the dislike to a like, the second retracts the like, and the
  dislike is gone.
\<close>

theorem double_like_counterexample:
  "applyVote (applyVote item_u1_disliked ''u1'' ''like'') ''u1'' ''like'' \<noteq> item_u1_disliked \<and>
   applyVote (applyVote item_u1_disliked ''u1'' ''like'') ''u1'' ''like'' =
     \<lparr>likers = Some [], dislikers = Some [], likes = 0, dislikes = 0\<rparr>"
  by (simp add: applyVote_def voteWrites_def item_u1_disliked_def likersOf_def dislikersOf_def)

text \<open>
  Claim C4, amended. For an item whose \<open>likes\<close> is a safe integer and a user who is
  not among the dislikers, two \<open>'like'\<close> votes in a row leave both counters, the
  dislikers and the set of likers as they were. When the user is not among the
  likers either (the baseline), the item is returned unchanged, except that an
  absent array of likers comes back as the empty array.
\<close>

theorem double_like_restores:
  assumes "u \<notin> set (dislikersOf item)" and "safeInteger (likes item)"
  shows "likes (applyVote (applyVote item u ''like'') u ''like'') = likes item \<and>
         dislikes (applyVote (applyVote item u ''like'') u ''like'') = dislikes item \<and>
         dislikers (applyVote (applyVote item u ''like'') u ''like'') = dislikers item \<and>
         set (likersOf (applyVote (applyVote item u ''like'') u ''like'')) = set (likersOf item) \<and>
         (u \<notin> set (likersOf item) \<longrightarrow>
            applyVote (applyVote item u ''like'') u ''like'' =
              item\<lparr>likers := Some (likersOf item)\<rparr> \<and>
            (likers item \<noteq> None \<longrightarrow>
               applyVote (applyVote item u ''like'') u ''like'' = item))"
proof -
  let ?r = "applyVote (applyVote item u ''like'') u ''like''"
  have counts: "likes ?r = likes item" "dislikes ?r = dislikes item"
    using assms(1) by (simp_all add: applyVote_fields)
  have keep: "dislikers (applyVote d u ''like'') = dislikers d"
    if "u \<notin> set (dislikersOf d)" for d
    using that by (simp add: applyVote_def voteWrites_def Let_def)
  have "u \<notin> set (dislikersOf (applyVote item u ''like''))"
    using assms(1) by (simp add: applyVote_fields)
  then have dis: "dislikers ?r = dislikers item"
    using assms(1) by (simp add: keep)
  have likset: "set (likersOf ?r) = set (likersOf item)"
    using assms(1) by (auto simp: applyVote_fields)
  have base: "?r = item\<lparr>likers := Some (likersOf item)\<rparr>" if "u \<notin> set (likersOf item)"
  proof -
    have "likersOf ?r = likersOf item"
      using assms(1) that by (simp add: applyVote_fields filter_absent)
    moreover have "likers ?r = Some (likersOf ?r)"
      by (rule applyVote_like_likers)
    ultimately have "likers ?r = Some (likersOf item)"
      by simp
    with counts dis show ?thesis
      by (intro vdoc.equality) simp_all
  qed
  have same: "?r = item" if "u \<notin> set (likersOf item)" and "likers item \<noteq> None"
  proof -
    from that(2) have "likers item = Some (likersOf item)"
      by (auto simp: likersOf_def)
    then have "item\<lparr>likers := Some (likersOf item)\<rparr> = item"
      by simp
    with base [OF that(1)] show ?thesis
      by simp
  qed
  from counts dis likset base same show ?thesis by blast
qed

theorem double_like_restores_witness:
  "''u3'' \<notin> set (dislikersOf item_u1_liked) \<and> safeInteger (likes item_u1_liked) \<and>
   ''u3'' \<notin> set (likersOf item_u1_liked) \<and> likers item_u1_liked \<noteq> None \<and>
   applyVote (applyVote item_u1_liked ''u3'' ''like'') ''u3'' ''like'' = item_u1_liked"
proof -
  have a: "''u3'' \<notin> set (dislikersOf item_u1_liked)" by simp
  have s: "safeInteger (likes item_u1_liked)" by (simp add: safeInteger_def)
  have b: "''u3'' \<notin> set (likersOf item_u1_liked)" by simp
  have c: "likers item_u1_liked \<noteq> None" by (simp add: item_u1_liked_def)
  from double_like_restores [OF a s] a s b c show ?thesis by blast
qed

text \<open>
  Claim C5 (lost update). Two different users like the same post, whose \<open>likes\<close> is
  0 and whose likers are empty. When both handlers have read the same snapshot
  before either writes, the post ends with \<open>likes = 1\<close> and the second user as its
  only liker, the second write having replaced the first; had the second handler
  run after the first had finished, \<open>likes\<close> would be 2.
\<close>

theorem stale_votes_lose_update:
  assumes "s (PostRef i) = Some d" and "likes d = 0" and "likersOf d = []"
    and "u1 \<noteq> u2"
    and "user c1 = Some u1" and "db c1" and "user c2 = Some u2" and "db c2"
  shows "map_option likes (staleVotes s i u1 u2 ''like'' (PostRef i)) = Some 1 \<and>
         map_option likersOf (staleVotes s i u1 u2 ''like'' (PostRef i)) = Some [u2] \<and>
         map_option likes
           (snd (snd (handleVote c2 (snd (snd (handleVote c1 s ''post'' i ''like'' None)))
              ''post'' i ''like'' None)) (PostRef i)) = Some 2"
proof -
  have w1: "(s(PostRef i \<mapsto> applyUpdates (voteWrites d u1 ''like'') d)) (PostRef i) =
              Some (applyUpdates (voteWrites d u1 ''like'') d)"
    by simp
  have stale: "staleVotes s i u1 u2 ''like'' (PostRef i) =
                 Some (applyUpdates (voteWrites d u2 ''like'')
                        (applyUpdates (voteWrites d u1 ''like'') d))"
    using assms(1) w1
    by (simp add: staleVotes_def Let_def
        runUpdates_existing [where s = s and r = "PostRef i" and d = d]
        runUpdates_existing [where r = "PostRef i"
          and d = "applyUpdates (voteWrites d u1 ''like'') d"])
  have lk: "likes (applyUpdates (voteWrites d u2 ''like'') (applyUpdates (voteWrites d u1 ''like'') d)) = 1"
    using assms(2,3) by (simp add: voteWrites_def Let_def del: applyUpdate.simps)
  have ls: "likersOf (applyUpdates (voteWrites d u2 ''like'') (applyUpdates (voteWrites d u1 ''like'') d)) = [u2]"
    using assms(2,3) by (simp add: voteWrites_def Let_def del: applyUpdate.simps)
  have first: "handleVote c1 s ''post'' i ''like'' None =
                 (Fulfilled, c1, s(PostRef i \<mapsto> applyVote d u1 ''like''))"
    using assms by (simp add: handleVote_post)
  have second: "handleVote c2 (s(PostRef i \<mapsto> applyVote d u1 ''like'')) ''post'' i ''like'' None =
      (Fulfilled, c2, (s(PostRef i \<mapsto> applyVote d u1 ''like''))
         (PostRef i \<mapsto> applyVote (applyVote d u1 ''like'') u2 ''like''))"
    using assms(7,8) by (intro handleVote_post) simp_all
  have "likes (applyVote (applyVote d u1 ''like'') u2 ''like'') = 2"
    using assms(2,3,4) by (simp add: applyVote_fields)
  with stale lk ls first second show ?thesis by simp
qed

theorem stale_votes_lose_update_witness:
  "map_option likes (staleVotes store_one_post ''p1'' ''u1'' ''u2'' ''like'' (PostRef ''p1'')) = Some 1 \<and>
   map_option likersOf (staleVotes store_one_post ''p1'' ''u1'' ''u2'' ''like'' (PostRef ''p1'')) = Some [''u2''] \<and>
   map_option likes
     (snd (snd (handleVote client_u2
        (snd (snd (handleVote client_u1 store_one_post ''post'' ''p1'' ''like'' None)))
        ''post'' ''p1'' ''like'' None)) (PostRef ''p1'')) = Some 2"
proof -
  have a: "store_one_post (PostRef ''p1'') = Some item_fresh"
    by (simp add: store_one_post_def)
  have b: "likes item_fresh = 0" "likersOf item_fresh = []" "''u1'' \<noteq> ''u2''"
    by simp_all
  have c: "user client_u1 = Some ''u1''" "db client_u1" "user client_u2 = Some ''u2''" "db client_u2"
    by (simp_all add: client_u1_def client_u2_def)
  from stale_votes_lose_update
         [where s = store_one_post and i = "''p1''" and d = item_fresh
            and ?u1.0 = "''u1''" and ?u2.0 = "''u2''" and ?c1.0 = client_u1 and ?c2.0 = client_u2]
       a b c
  show ?thesis by blast
qed

text \<open>
  Claim C8 (invalid vote type). As stated, a vote type other than the two known ones
  makes the operation fail with \<open>InvalidArgument\<close>, without an update. The handler
  compares \<open>voteType\<close> with \<open>'like'\<close> only: user \<open>u1\<close> voting \<open>'sideways'\<close> on a fresh post
  is recorded as a dislike, the handler is fulfilled and no message is shown.
\<close>

theorem unknown_voteType_counterexample:
  "fst (handleVote client_u1 store_one_post ''post'' ''p1'' ''sideways'' None) = Fulfilled \<and>
   fst (snd (handleVote client_u1 store_one_post ''post'' ''p1'' ''sideways'' None)) = client_u1 \<and>
   \<not> isModalOpen client_u1 \<and>
   store_one_post (PostRef ''p1'') =
     Some \<lparr>likers = Some [], dislikers = Some [], likes = 0, dislikes = 0\<rparr> \<and>
   snd (snd (handleVote client_u1 store_one_post ''post'' ''p1'' ''sideways'' None)) (PostRef ''p1'') =
     Some \<lparr>likers = Some [], dislikers = Some [''u1''], likes = 0, dislikes = 1\<rparr>"
proof -
  have a: "store_one_post (PostRef ''p1'') = Some item_fresh"
    by (simp add: store_one_post_def)
  have b: "user client_u1 = Some ''u1''" "db client_u1" "\<not> isModalOpen client_u1"
    by (simp_all add: client_u1_def)
  have "applyVote item_fresh ''u1'' ''sideways'' =
          \<lparr>likers = Some [], dislikers = Some [''u1''], likes = 0, dislikes = 1\<rparr>"
    by (simp add: applyVote_def voteWrites_def item_fresh_def likersOf_def dislikersOf_def)
  moreover have "handleVote client_u1 store_one_post ''post'' ''p1'' ''sideways'' None =
          (Fulfilled, client_u1,
           store_one_post(PostRef ''p1'' \<mapsto> applyVote item_fresh ''u1'' ''sideways''))"
    using a b by (intro handleVote_post) simp_all
  ultimately show ?thesis
    using a b(3) by (simp add: item_fresh_def)
qed

text \<open>
  Claim C8, amended. A vote type other than \<open>'like'\<close> is handled exactly as
  \<open>'dislike'\<close>; there is no \<open>InvalidArgument\<close> failure. When no post document has the
  target's id, the handler shows a message (the sign-in message if no user is
  signed in, \<open>Error: Document not found.\<close> otherwise), is fulfilled and leaves the
  store as it was.
\<close>

theorem handleVote_unknown_voteType_is_dislike:
  "(voteType \<noteq> ''like'' \<longrightarrow>
      handleVote c s target targetId voteType postId =
      handleVote c s target targetId ''dislike'' postId) \<and>
   (s (PostRef targetId) = None \<longrightarrow>
      handleVote c s target targetId voteType postId =
        (Fulfilled,
         showModal (if user c \<noteq> None \<and> db c then ''Error: Document not found.''
                    else ''You must be signed in to like or dislike.'') c,
         s))"
proof -
  have "handleVote c s target targetId voteType postId =
        handleVote c s target targetId ''dislike'' postId" if "voteType \<noteq> ''like''"
    unfolding handleVote_def voteWrites_not_like [OF that] ..
  moreover have "handleVote c s target targetId voteType postId =
        (Fulfilled,
         showModal (if user c \<noteq> None \<and> db c then ''Error: Document not found.''
                    else ''You must be signed in to like or dislike.'') c,
         s)" if "s (PostRef targetId) = None"
    using that by (simp add: handleVote_def Let_def split: option.splits)
  ultimately show ?thesis by blast
qed

theorem handleVote_unknown_voteType_is_dislike_witness:
  "''sideways'' \<noteq> ''like'' \<and>
   handleVote client_u1 store_one_post ''post'' ''p1'' ''sideways'' None =
     handleVote client_u1 store_one_post ''post'' ''p1'' ''dislike'' None \<and>
   store_one_post (PostRef ''p2'') = None \<and>
   handleVote client_u1 store_one_post ''post'' ''p2'' ''sideways'' None =
     (Fulfilled, showModal ''Error: Document not found.'' client_u1, store_one_post)"
proof -
  have a: "''sideways'' \<noteq> ''like''" by simp
  have b: "store_one_post (PostRef ''p2'') = None"
    by (simp add: store_one_post_def)
  have c: "user client_u1 \<noteq> None \<and> db client_u1"
    by (simp add: client_u1_def)
  have 1: "handleVote client_u1 store_one_post ''post'' ''p1'' ''sideways'' None =
           handleVote client_u1 store_one_post ''post'' ''p1'' ''dislike'' None"
    using handleVote_unknown_voteType_is_dislike
            [of "''sideways''" client_u1 store_one_post "''post''" "''p1''" None] a
    by blast
  have "handleVote client_u1 store_one_post ''post'' ''p2'' ''sideways'' None =
        (Fulfilled,
         showModal (if user client_u1 \<noteq> None \<and> db client_u1 then ''Error: Document not found.''
                    else ''You must be signed in to like or dislike.'') client_u1,
         store_one_post)"
    using handleVote_unknown_voteType_is_dislike
            [of "''sideways''" client_u1 store_one_post "''post''" "''p2''" None] b
    by blast
  with c have 2: "handleVote client_u1 store_one_post ''post'' ''p2'' ''sideways'' None =
        (Fulfilled, showModal ''Error: Document not found.'' client_u1, store_one_post)"
    by simp
  from a b 1 2 show ?thesis by blast
qed

text \<open>
  Claim C9 (atomicity). As stated, the only state of the item that is ever
  persisted by a vote is the fully updated item. When user \<open>u1\<close>, who had disliked,
  votes \<open>'like'\<close>, two states are persisted one after the other: in the first \<open>u1\<close>
  is among the likers and among the dislikers, and both counters are 1.
\<close>

theorem vote_switch_counterexample:
  "persistedStates (voteWrites item_u1_disliked ''u1'' ''like'') item_u1_disliked =
     [\<lparr>likers = Some [''u1''], dislikers = Some [''u1''], likes = 1, dislikes = 1\<rparr>,
      \<lparr>likers = Some [''u1''], dislikers = Some [], likes = 1, dislikes = 0\<rparr>] \<and>
   persistedStates (voteWrites item_u1_disliked ''u1'' ''like'') item_u1_disliked \<noteq>
     [applyVote item_u1_disliked ''u1'' ''like'']"
  by (simp add: applyVote_def voteWrites_def item_u1_disliked_def likersOf_def dislikersOf_def)

text \<open>
  Claim C9, amended. For an item with safe counters, the states a vote persists
  are these. A vote of a user who is already in the array of the vote persists one
  state: the user removed from that array, its counter one less. A vote of a user
  who is in neither array persists one state: the user appended to the array of
  the vote, its counter one more. A vote that switches sides persists two states:
  first the user appended to the array of the vote, its counter one more, the
  opposite array and counter still as they were, so that the user is in both
  arrays; then, in addition, the user removed from the opposite array and that
  counter one less. The last state persisted is the fully updated item, in which
  the user is not in both arrays unless the vote was a retraction.
\<close>

theorem vote_persisted_states:
  assumes "safeInteger (likes item)" and "safeInteger (dislikes item)"
  shows "persistedStates (voteWrites item u t) item =
           (if t = ''like'' then
              (if u \<in> set (likersOf item) then
                 [item\<lparr>likers := Some (filter (\<lambda>i. i \<noteq> u) (likersOf item)),
                        likes := likes item - 1\<rparr>]
               else if u \<in> set (dislikersOf item) then
                 [item\<lparr>likers := Some (likersOf item @ [u]), likes := likes item + 1\<rparr>,
                  item\<lparr>likers := Some (likersOf item @ [u]), likes := likes item + 1,
                        dislikers := Some (filter (\<lambda>i. i \<noteq> u) (dislikersOf item)),
                        dislikes := dislikes item - 1\<rparr>]
               else
                 [item\<lparr>likers := Some (likersOf item @ [u]), likes := likes item + 1\<rparr>])
            else
              (if u \<in> set (dislikersOf item) then
                 [item\<lparr>dislikers := Some (filter (\<lambda>i. i \<noteq> u) (dislikersOf item)),
                        dislikes := dislikes item - 1\<rparr>]
               else if u \<in> set (likersOf item) then
                 [item\<lparr>dislikers := Some (dislikersOf item @ [u]),
                        dislikes := dislikes item + 1\<rparr>,
                  item\<lparr>dislikers := Some (dislikersOf item @ [u]),
                        dislikes := dislikes item + 1,
                        likers := Some (filter (\<lambda>i. i \<noteq> u) (likersOf item)),
                        likes := likes item - 1\<rparr>]
               else
                 [item\<lparr>dislikers := Some (dislikersOf item @ [u]),
                        dislikes := dislikes item + 1\<rparr>])) \<and>
         last (persistedStates (voteWrites item u t) item) = applyVote item u t \<and>
         (if switchesVote item u t then
            length (persistedStates (voteWrites item u t) item) = 2 \<and>
            u \<in> set (likersOf (hd (persistedStates (voteWrites item u t) item))) \<and>
            u \<in> set (dislikersOf (hd (persistedStates (voteWrites item u t) item))) \<and>
            \<not> (u \<in> set (likersOf (applyVote item u t)) \<and>
               u \<in> set (dislikersOf (applyVote item u t)))
          else length (persistedStates (voteWrites item u t) item) = 1)"
proof -
  have states: "persistedStates (voteWrites item u t) item =
           (if t = ''like'' then
              (if u \<in> set (likersOf item) then
                 [item\<lparr>likers := Some (filter (\<lambda>i. i \<noteq> u) (likersOf item)),
                        likes := likes item - 1\<rparr>]
               else if u \<in> set (dislikersOf item) then
                 [item\<lparr>likers := Some (likersOf item @ [u]), likes := likes item + 1\<rparr>,
                  item\<lparr>likers := Some (likersOf item @ [u]), likes := likes item + 1,
                        dislikers := Some (filter (\<lambda>i. i \<noteq> u) (dislikersOf item)),
                        dislikes := dislikes item - 1\<rparr>]
               else
                 [item\<lparr>likers := Some (likersOf item @ [u]), likes := likes item + 1\<rparr>])
            else
              (if u \<in> set (dislikersOf item) then
                 [item\<lparr>dislikers := Some (filter (\<lambda>i. i \<noteq> u) (dislikersOf item)),
                        dislikes := dislikes item - 1\<rparr>]
               else if u \<in> set (likersOf item) then
                 [item\<lparr>dislikers := Some (dislikersOf item @ [u]),
                        dislikes := dislikes item + 1\<rparr>,
                  item\<lparr>dislikers := Some (dislikersOf item @ [u]),
                        dislikes := dislikes item + 1,
                        likers := Some (filter (\<lambda>i. i \<noteq> u) (likersOf item)),
                        likes := likes item - 1\<rparr>]
               else
                 [item\<lparr>dislikers := Some (dislikersOf item @ [u]),
                        dislikes := dislikes item + 1\<rparr>]))"
    by (simp add: voteWrites_def Let_def)
  have final: "last (persistedStates (voteWrites item u t) item) = applyVote item u t"
    by (simp add: last_persistedStates voteWrites_nonempty applyVote_def)
  have len: "length (persistedStates (voteWrites item u t) item) =
               (if switchesVote item u t then 2 else 1)"
    by (simp add: length_persistedStates switchesVote_def voteWrites_def Let_def)
  have both: "u \<in> set (likersOf (hd (persistedStates (voteWrites item u t) item))) \<and>
              u \<in> set (dislikersOf (hd (persistedStates (voteWrites item u t) item)))"
    if "switchesVote item u t"
    using that
    by (simp add: switchesVote_def voteWrites_def Let_def split: if_splits
        del: applyUpdate.simps)
  have one: "\<not> (u \<in> set (likersOf (applyVote item u t)) \<and>
               u \<in> set (dislikersOf (applyVote item u t)))"
    if "switchesVote item u t"
    using that by (simp add: switchesVote_def applyVote_fields split: if_splits)
  from states final len both one show ?thesis
    by presburger
qed

theorem vote_persisted_states_witness:
  "safeInteger (likes item_u1_liked) \<and> safeInteger (dislikes item_u1_liked) \<and>
   switchesVote item_u1_liked ''u1'' ''dislike'' \<and>
   persistedStates (voteWrites item_u1_liked ''u1'' ''dislike'') item_u1_liked =
     [\<lparr>likers = Some [''u1''], dislikers = Some [''u2'', ''u1''], likes = 1, dislikes = 2\<rparr>,
      \<lparr>likers = Some [], dislikers = Some [''u2'', ''u1''], likes = 0, dislikes = 2\<rparr>] \<and>
   applyVote item_u1_liked ''u1'' ''dislike'' =
     \<lparr>likers = Some [], dislikers = Some [''u2'', ''u1''], likes = 0, dislikes = 2\<rparr>"
proof -
  have s: "safeInteger (likes item_u1_liked)" "safeInteger (dislikes item_u1_liked)"
    by (simp_all add: safeInteger_def)
  have a: "switchesVote item_u1_liked ''u1'' ''dislike''"
    by (simp add: switchesVote_def)
  have r: "applyVote item_u1_liked ''u1'' ''dislike'' =
     \<lparr>likers = Some [], dislikers = Some [''u2'', ''u1''], likes = 0, dislikes = 2\<rparr>"
    by (simp add: applyVote_def voteWrites_def item_u1_liked_def likersOf_def dislikersOf_def)
  from vote_persisted_states [OF s, of "''u1''" "''dislike''"]
  have "persistedStates (voteWrites item_u1_liked ''u1'' ''dislike'') item_u1_liked =
     [\<lparr>likers = Some [''u1''], dislikers = Some [''u2'', ''u1''], likes = 1, dislikes = 2\<rparr>,
      \<lparr>likers = Some [], dislikers = Some [''u2'', ''u1''], likes = 0, dislikes = 2\<rparr>]"
    by (simp add: item_u1_liked_def likersOf_def dislikersOf_def)
  with s a r show ?thesis by simp
qed

text \<open>
  Claim C10 (votes on comments). For a signed-in user and a target other than a
  post, the snapshot is the document of the posts collection whose id is the
  comment's id. If there is none, the handler shows \<open>Error: Document not found.\<close>
  and writes nothing. If there is one, the updates are computed from that post
  document and written to the comment: the comment, when it exists, receives them
  on top of its own fields, the post stays as it was; when the comment does not
  exist the first write fails and nothing is written.
\<close>

theorem comment_vote_reads_post_snapshot:
  assumes "user c = Some u" and "db c" and "target \<noteq> ''post''"
  shows "(s (PostRef targetId) = None \<longrightarrow>
            handleVote c s target targetId voteType (Some postId) =
              (Fulfilled, showModal ''Error: Document not found.'' c, s)) \<and>
         (\<forall>data. s (PostRef targetId) = Some data \<longrightarrow>
            (\<forall>cd. s (CommentRef postId targetId) = Some cd \<longrightarrow>
               handleVote c s target targetId voteType (Some postId) =
                 (Fulfilled, c,
                  s(CommentRef postId targetId \<mapsto> applyUpdates (voteWrites data u voteType) cd))) \<and>
            (s (CommentRef postId targetId) = None \<longrightarrow>
               handleVote c s target targetId voteType (Some postId) = (Rejected, c, s)))"
  using assms
  by (simp add: handleVote_def runUpdates_existing runUpdates_missing voteWrites_nonempty)

theorem comment_vote_reads_post_snapshot_witness:
  "handleVote client_u3 store_comment_only ''comment'' ''c1'' ''like'' (Some ''p1'') =
     (Fulfilled, showModal ''Error: Document not found.'' client_u3, store_comment_only) \<and>
   store_comment_only (CommentRef ''p1'' ''c1'') = Some item_fresh \<and>
   handleVote client_u3 store_shared_id ''comment'' ''x1'' ''like'' (Some ''p1'') =
     (Fulfilled, client_u3,
      store_shared_id(CommentRef ''p1'' ''x1'' \<mapsto>
        \<lparr>likers = Some [''u1'', ''u3''], dislikers = Some [''u1''], likes = 2, dislikes = 1\<rparr>))"
proof -
  have c: "user client_u3 = Some ''u3''" "db client_u3" "''comment'' \<noteq> ''post''"
    by (simp_all add: client_u3_def)
  have a: "store_comment_only (PostRef ''c1'') = None"
    "store_comment_only (CommentRef ''p1'' ''c1'') = Some item_fresh"
    by (simp_all add: store_comment_only_def)
  have b: "store_shared_id (PostRef ''x1'') = Some item_u1_liked"
    "store_shared_id (CommentRef ''p1'' ''x1'') = Some item_u1_disliked"
    by (simp_all add: store_shared_id_def)
  have w: "applyUpdates (voteWrites item_u1_liked ''u3'' ''like'') item_u1_disliked =
      \<lparr>likers = Some [''u1'', ''u3''], dislikers = Some [''u1''], likes = 2, dislikes = 1\<rparr>"
    by (simp add: voteWrites_def item_u1_liked_def item_u1_disliked_def likersOf_def
        dislikersOf_def)
  from comment_vote_reads_post_snapshot
         [where c = client_u3 and u = "''u3''" and target = "''comment''"
            and s = store_comment_only and targetId = "''c1''" and voteType = "''like''"
            and postId = "''p1''"]
       comment_vote_reads_post_snapshot
         [where c = client_u3 and u = "''u3''" and target = "''comment''"
            and s = store_shared_id and targetId = "''x1''" and voteType = "''like''"
            and postId = "''p1''"]
       a b c w
  show ?thesis by simp
qed

section \<open>The comment tree\<close>

text \<open>
  Claim C2. The records are partitioned into the roots, whose \<open>parentCommentId\<close> is
  nil (\<open>null\<close>, or the empty string, which the test \<open>!c.parentCommentId\<close> does not
  tell apart), and the children, whose \<open>parentCommentId\<close> is set. The forest has one
  tree per root, in the order of the records, and the replies of a root are exactly
  the children whose \<open>parentCommentId\<close> is the root's id, in the order of the
  records. The forest of no records is empty. Document ids are not empty.
\<close>

theorem build_partitions_and_attaches:
  assumes "\<forall>c \<in> set records. comment_id c \<noteq> []"
  shows "build records =
           map (\<lambda>r. \<lparr>comment = r,
                      replies = filter (\<lambda>c. parentCommentId c = Some (comment_id r))
                                  (children records)\<rparr>)
               (roots records) \<and>
         (\<forall>c. c \<in> set (roots records) \<longleftrightarrow>
                c \<in> set records \<and> (parentCommentId c = None \<or> parentCommentId c = Some [])) \<and>
         (\<forall>c. c \<in> set (children records) \<longleftrightarrow>
                c \<in> set records \<and> \<not> (parentCommentId c = None \<or> parentCommentId c = Some [])) \<and>
         length (roots records) + length (children records) = length records \<and>
         build [] = []"
proof -
  have nil: "topLevel c \<longleftrightarrow> parentCommentId c = None \<or> parentCommentId c = Some []" for c
    by (auto simp: topLevel_def split: option.splits)
  have same: "filter (\<lambda>c. parentCommentId c = Some (comment_id r)) records =
              filter (\<lambda>c. parentCommentId c = Some (comment_id r)) (children records)"
    if "r \<in> set records" for r
  proof -
    from that assms have "comment_id r \<noteq> []" by blast
    then have "parentCommentId c = Some (comment_id r) \<longleftrightarrow>
               \<not> topLevel c \<and> parentCommentId c = Some (comment_id r)" for c
      by (auto simp: topLevel_def)
    then show ?thesis
      by (simp add: children_def)
  qed
  have "build records =
           map (\<lambda>r. \<lparr>comment = r,
                      replies = filter (\<lambda>c. parentCommentId c = Some (comment_id r))
                                  (children records)\<rparr>)
               (roots records)"
    unfolding build_def roots_def
    by (rule map_cong) (simp_all add: same)
  moreover have "length (roots records) + length (children records) = length records"
    unfolding roots_def children_def by (rule sum_length_filter_compl)
  moreover have "build [] = []"
    by (simp add: build_def)
  ultimately show ?thesis
    by (simp add: roots_def children_def nil)
qed

theorem build_partitions_and_attaches_witness:
  "map comment_id records4 = [''1'', ''2'', ''3'', ''4''] \<and>
   roots records4 = [rec1] \<and> children records4 = [rec2, rec3, rec4] \<and>
   build records4 = [\<lparr>comment = rec1, replies = [rec2, rec3]\<rparr>]"
proof -
  have a: "\<forall>c \<in> set records4. comment_id c \<noteq> []"
    by (simp add: records4_def)
  have b: "roots records4 = [rec1]" "children records4 = [rec2, rec3, rec4]"
    by (simp_all add: roots_def children_def records4_def)
  have c: "map comment_id records4 = [''1'', ''2'', ''3'', ''4'']"
    by (simp add: records4_def)
  from build_partitions_and_attaches [OF a] b c show ?thesis
    by simp
qed

text \<open>
  Claim C6 (orphans are dropped). A record whose \<open>parentCommentId\<close> is set and is
  the id of no root is nowhere in the forest: it is not a root and it is among the
  replies of no root. In the example of the specification, record 4 (parent 99) is
  dropped and the forest is the single root 1 with the replies 2 and 3.
\<close>

theorem build_drops_orphans:
  assumes "\<not> topLevel c"
    and "\<forall>r \<in> set (roots records). parentCommentId c \<noteq> Some (comment_id r)"
  shows "c \<notin> set (map comment (build records)) \<and>
         (\<forall>n \<in> set (build records). c \<notin> set (replies n))"
proof -
  have "c \<notin> set (map comment (build records))"
    using assms(1) by (simp add: build_roots)
  moreover have "c \<notin> set (replies n)" if "n \<in> set (build records)" for n
  proof -
    from that have "comment n \<in> set (roots records)"
      by (simp add: build_node roots_def)
    with assms(2) have "parentCommentId c \<noteq> Some (comment_id (comment n))"
      by blast
    then show ?thesis
      by (simp add: build_node(3) [OF that])
  qed
  ultimately show ?thesis by blast
qed

theorem build_drops_orphans_witness:
  "\<not> topLevel rec4 \<and> parentCommentId rec4 = Some ''99'' \<and>
   map comment_id (roots records4) = [''1''] \<and>
   build records4 = [\<lparr>comment = rec1, replies = [rec2, rec3]\<rparr>] \<and>
   rec4 \<notin> set (map comment (build records4)) \<and>
   rec4 \<notin> set (concat (map replies (build records4)))"
proof -
  have a: "\<not> topLevel rec4" by simp
  have b: "\<forall>r \<in> set (roots records4). parentCommentId rec4 \<noteq> Some (comment_id r)"
    by (simp add: roots_def records4_def)
  have c: "map comment_id (roots records4) = [''1'']"
    by (simp add: roots_def records4_def)
  from build_drops_orphans [OF a b] have
    "rec4 \<notin> set (map comment (build records4))"
    "rec4 \<notin> set (concat (map replies (build records4)))"
    by auto
  with a c build_records4 show ?thesis
    by simp
qed

text \<open>
  Claim C7 (orphans are promoted). As stated, a record whose \<open>parentCommentId\<close>
  names a comment that is not in the collection becomes a root. Record 4 of the
  example names comment 99, no record has the id 99, and the only root of the
  forest is record 1.
\<close>

theorem orphan_not_promoted_counterexample:
  "parentCommentId rec4 = Some ''99'' \<and>
   map comment_id records4 = [''1'', ''2'', ''3'', ''4''] \<and>
   map comment (build records4) = [rec1] \<and> rec4 \<noteq> rec1"
  by (simp add: build_records4) (simp add: records4_def rec1_def rec4_def)

text \<open>
  Claim C7, amended. A record whose \<open>parentCommentId\<close> names a comment that is not
  in the collection is not a root of the forest, and it is among the replies of no
  root: it is left out.
\<close>

theorem build_leaves_out_dangling_parent:
  assumes "parentCommentId c = Some p" and "p \<noteq> []"
    and "p \<notin> set (map comment_id records)"
  shows "c \<notin> set (map comment (build records)) \<and>
         (\<forall>n \<in> set (build records). c \<notin> set (replies n))"
proof -
  from assms(1,2) have "\<not> topLevel c"
    by (simp add: topLevel_def)
  then have "c \<notin> set (map comment (build records))"
    by (simp add: build_roots)
  moreover have "c \<notin> set (replies n)" if "n \<in> set (build records)" for n
  proof -
    from that have "comment_id (comment n) \<in> set (map comment_id records)"
      by (simp add: build_node(2))
    with assms(3) have "p \<noteq> comment_id (comment n)"
      by blast
    with assms(1) show ?thesis
      by (simp add: build_node(3) [OF that])
  qed
  ultimately show ?thesis by blast
qed

theorem build_leaves_out_dangling_parent_witness:
  "parentCommentId rec4 = Some ''99'' \<and> ''99'' \<noteq> [] \<and>
   ''99'' \<notin> set (map comment_id records4) \<and>
   rec4 \<notin> set (map comment (build records4)) \<and>
   rec4 \<notin> set (concat (map replies (build records4)))"
proof -
  have a: "parentCommentId rec4 = Some ''99''" "''99'' \<noteq> []" by simp_all
  have b: "''99'' \<notin> set (map comment_id records4)"
    by (simp add: records4_def)
  from build_leaves_out_dangling_parent [OF a b] have
    "rec4 \<notin> set (map comment (build records4))"
    "rec4 \<notin> set (concat (map replies (build records4)))"
    by auto
  with a b show ?thesis
    by simp
qed

end
